theory Spec2Isabelle
  imports Complex_Main "HOL-Library.Word"
begin

section \<open>Values of the host language\<close>

text \<open>
  The driver \<^verbatim>\<open>lib/drivers/weitai/weiTaiUSB.js\<close> works on Node buffers, strings and
  numbers. A buffer is a list of bytes. A number is either an exact rational or \<open>NaN\<close>:
  the rounding of IEEE doubles, the infinities and the negative zero are not modelled, so
  every statement about an amount below reads the amount as the exact decimal number.
\<close>

type_synonym byte = "8 word"
type_synonym buffer = "byte list"

datatype jsnum = Num rat | NaN

fun js_add :: "jsnum \<Rightarrow> jsnum \<Rightarrow> jsnum" where
  "js_add (Num a) (Num b) = Num (a + b)"
| "js_add _ _ = NaN"

fun js_sub :: "jsnum \<Rightarrow> jsnum \<Rightarrow> jsnum" where
  "js_sub (Num a) (Num b) = Num (a - b)"
| "js_sub _ _ = NaN"

fun js_mul :: "jsnum \<Rightarrow> jsnum \<Rightarrow> jsnum" where
  "js_mul (Num a) (Num b) = Num (a * b)"
| "js_mul _ _ = NaN"

text \<open>Every division of the driver is by a non-zero constant (1000, 3600, 25).\<close>

fun js_div :: "jsnum \<Rightarrow> jsnum \<Rightarrow> jsnum" where
  "js_div (Num a) (Num b) = (if b = 0 then NaN else Num (a / b))"
| "js_div _ _ = NaN"

text \<open>Comparisons with \<open>NaN\<close> are false, except \<^verbatim>\<open>!=\<close>, which is true.\<close>

fun js_lt :: "jsnum \<Rightarrow> jsnum \<Rightarrow> bool" where
  "js_lt (Num a) (Num b) = (a < b)"
| "js_lt _ _ = False"

fun js_le :: "jsnum \<Rightarrow> jsnum \<Rightarrow> bool" where
  "js_le (Num a) (Num b) = (a \<le> b)"
| "js_le _ _ = False"

fun js_eq :: "jsnum \<Rightarrow> jsnum \<Rightarrow> bool" where
  "js_eq (Num a) (Num b) = (a = b)"
| "js_eq _ _ = False"

fun js_floor :: "jsnum \<Rightarrow> jsnum" where
  "js_floor (Num a) = Num (of_int \<lfloor>a\<rfloor>)"
| "js_floor NaN = NaN"

subsection \<open>Strings\<close>

text \<open>\<^verbatim>\<open>n.toString()\<close> and \<^verbatim>\<open>n.toString(16)\<close> of a non-negative integer.\<close>

definition digit_char :: "nat \<Rightarrow> char" where
  "digit_char d = ''0123456789abcdef'' ! d"

function toStringRadix :: "nat \<Rightarrow> nat \<Rightarrow> string" where
  "toStringRadix radix n =
     (if n < radix \<or> radix < 2 then [digit_char n]
      else toStringRadix radix (n div radix) @ [digit_char (n mod radix)])"
  by pat_completeness auto
termination
  by (relation "measure (\<lambda>(radix, n). n)") auto

definition toString :: "nat \<Rightarrow> string" where
  "toString n = toStringRadix 10 n"

text \<open>\<^verbatim>\<open>s.substring(k)\<close>.\<close>

definition substring :: "string \<Rightarrow> nat \<Rightarrow> string" where
  "substring s k = drop k s"

text \<open>
  \<^verbatim>\<open>parseInt(s)\<close> without a radix: leading white space is skipped, a sign is read, a
  \<^verbatim>\<open>0x\<close> prefix selects base 16, and the longest prefix of digits is the value; no
  digit at all gives \<open>NaN\<close>.
\<close>

primrec index_of :: "char \<Rightarrow> string \<Rightarrow> nat option" where
  "index_of c [] = None"
| "index_of c (d # ds) =
     (if c = d then Some 0 else map_option Suc (index_of c ds))"

definition digit_value :: "nat \<Rightarrow> char \<Rightarrow> nat option" where
  "digit_value radix c =
     (case index_of c ''0123456789abcdef'' of
        Some v \<Rightarrow> (if v < radix then Some v else None)
      | None \<Rightarrow>
         (case index_of c ''ABCDEF'' of
            Some v \<Rightarrow> (if v + 10 < radix then Some (v + 10) else None)
          | None \<Rightarrow> None))"

definition is_white :: "char \<Rightarrow> bool" where
  "is_white c = (c \<in> set [CHR '' '', CHR 0x09, CHR 0x0A, CHR 0x0B, CHR 0x0C, CHR 0x0D])"

definition parseDigits :: "nat \<Rightarrow> string \<Rightarrow> jsnum" where
  "parseDigits radix s =
     (let ds = takeWhile (\<lambda>c. digit_value radix c \<noteq> None) s
      in if ds = [] then NaN
         else Num (of_int (foldl (\<lambda>a c. a * int radix + int (the (digit_value radix c))) 0 ds)))"

definition parseUnsigned :: "string \<Rightarrow> jsnum" where
  "parseUnsigned s =
     (if take 2 s = ''0x'' \<or> take 2 s = ''0X'' then parseDigits 16 (drop 2 s)
      else parseDigits 10 s)"

definition parseInt :: "string \<Rightarrow> jsnum" where
  "parseInt s =
     (case dropWhile is_white s of
        [] \<Rightarrow> NaN
      | c # r \<Rightarrow>
          if c = CHR ''-'' then js_mul (Num (-1)) (parseUnsigned r)
          else if c = CHR ''+'' then parseUnsigned r
          else parseUnsigned (c # r))"

text \<open>\<^verbatim>\<open>parseInt\<close> of a property that may be absent: \<^verbatim>\<open>parseInt(undefined)\<close> is \<open>NaN\<close>.\<close>

definition parseIntOpt :: "string option \<Rightarrow> jsnum" where
  "parseIntOpt v = (case v of None \<Rightarrow> NaN | Some s \<Rightarrow> parseInt s)"

text \<open>The comparison \<^verbatim>\<open>a < b\<close> of two strings is by code units, a proper prefix first.\<close>

fun js_str_lt :: "string \<Rightarrow> string \<Rightarrow> bool" where
  "js_str_lt [] [] = False"
| "js_str_lt [] (y # ys) = True"
| "js_str_lt (x # xs) [] = False"
| "js_str_lt (x # xs) (y # ys) =
     (if (of_char x :: nat) < of_char y then True
      else if (of_char y :: nat) < of_char x then False
      else js_str_lt xs ys)"

subsection \<open>Buffers\<close>

text \<open>
  \<^verbatim>\<open>buf.slice(start, end)\<close>: a negative index counts from the end, and both indices are
  clamped to the buffer.
\<close>

definition js_slice :: "'a list \<Rightarrow> int \<Rightarrow> int \<Rightarrow> 'a list" where
  "js_slice xs lo hi =
     (let n = int (length xs);
          s = (if lo < 0 then max 0 (n + lo) else min lo n);
          e = (if hi < 0 then max 0 (n + hi) else min hi n)
      in take (nat (e - s)) (drop (nat s) xs))"

definition slice :: "'a list \<Rightarrow> nat \<Rightarrow> nat \<Rightarrow> 'a list" where
  "slice xs lo hi = js_slice xs (int lo) (int hi)"

definition slice_from :: "'a list \<Rightarrow> nat \<Rightarrow> 'a list" where
  "slice_from xs lo = js_slice xs (int lo) (int (length xs))"

text \<open>
  Modelled from the spec: \<^verbatim>\<open>uintFromArrayBuffer(buf, true)\<close> of \<^verbatim>\<open>./utils\<close> is not among
  the sources; the spec reads every multi-byte integer little-endian and unsigned.
\<close>

primrec uintFromArrayBuffer :: "buffer \<Rightarrow> bool \<Rightarrow> nat" where
  "uintFromArrayBuffer [] littleEndian = 0"
| "uintFromArrayBuffer (b # bs) littleEndian = unat b + 256 * uintFromArrayBuffer bs littleEndian"

text \<open>
  Modelled from the spec: \<^verbatim>\<open>uint8ArrayToString\<close> of \<^verbatim>\<open>./utils\<close> is not among the sources;
  the spec has the serial as 6-byte ASCII, one character per byte.
\<close>

definition uint8ArrayToString :: "buffer \<Rightarrow> string" where
  "uint8ArrayToString bs = map (\<lambda>b. char_of (unat b)) bs"

text \<open>\<^verbatim>\<open>buf.writeUInt32LE(v, off)\<close> and \<^verbatim>\<open>buf.readInt32LE(off)\<close>; \<open>None\<close> is the RangeError.\<close>

definition bytesLE32 :: "int \<Rightarrow> buffer" where
  "bytesLE32 v =
     [of_int (v mod 256), of_int (v div 256 mod 256),
      of_int (v div 65536 mod 256), of_int (v div 16777216 mod 256)]"

definition writeUInt32LE :: "buffer \<Rightarrow> int \<Rightarrow> nat \<Rightarrow> buffer option" where
  "writeUInt32LE buf v off =
     (if 0 \<le> v \<and> v < 2 ^ 32 \<and> off + 4 \<le> length buf
      then Some (take off buf @ bytesLE32 v @ drop (off + 4) buf)
      else None)"

definition readInt32LE :: "buffer \<Rightarrow> nat \<Rightarrow> int option" where
  "readInt32LE buf off =
     (if off + 4 \<le> length buf
      then Some (sint (of_nat (uintFromArrayBuffer (take 4 (drop off buf)) True) :: 32 word))
      else None)"

section \<open>What the driver takes from outside\<close>

text \<open>
  The functions below are called by the driver and defined elsewhere: \<^verbatim>\<open>cRC8\<close> and
  \<^verbatim>\<open>formatString\<close> in \<^verbatim>\<open>./utils\<close> (not among the sources), the MD5 digest in Node's
  \<^verbatim>\<open>crypto\<close>, and \<^verbatim>\<open>new Date(text).valueOf()\<close> and \<^verbatim>\<open>decodeURIComponent\<close> in the
  language. The model takes them as parameters, so every theorem holds for whatever they
  compute.
\<close>

record env =
  cRC8 :: "buffer \<Rightarrow> byte"
  md5_digest :: "buffer \<Rightarrow> buffer"
  formatString :: "string \<Rightarrow> nat \<Rightarrow> bool \<Rightarrow> string"
  dateValueOf :: "string \<Rightarrow> jsnum"
  decodeURIComponent :: "string \<Rightarrow> string option"

datatype error =
    E_READ_FILE
  | IncorrectPayloadLength
  | ReturnedFalse
  | CRC8Mismatch
  | IncorrectPacketLength
  | MD5Mismatch
  | RangeError
  | E_NO_NEW_RECORDS
  | CommandLengthCheckFailed
  | CRC8CheckFailed
  | PacketLengthCheckFailed
  | MD5CheckFailed
  | NoData

section \<open>Frame codec\<close>

text \<open>
  Modelled from the spec: \<^verbatim>\<open>packFrame\<close> and \<^verbatim>\<open>unpackFrame\<close> of \<^verbatim>\<open>./utils\<close> are not among
  the sources. The spec has the first put the two-byte marker before and after an arbitrary
  body, and the second take the markers off again. The marker is the one \<^verbatim>\<open>getCommand\<close>
  looks for, \<^verbatim>\<open>0x2b 0x2b\<close>.
\<close>

definition packFrame :: "buffer \<Rightarrow> buffer" where
  "packFrame body = [0x2b, 0x2b] @ body @ [0x2b, 0x2b]"

definition unpackFrame :: "buffer \<Rightarrow> buffer" where
  "unpackFrame frame = take (length frame - 4) (drop 2 frame)"

text \<open>
  \<^verbatim>\<open>getCommand\<close>: the loop over \<open>i\<close> with its two variables \<^verbatim>\<open>begin\<close> and \<^verbatim>\<open>end\<close>
  (\<open>-1\<close> while not found). The loop returns the pair; \<^verbatim>\<open>break\<close> ends it.
\<close>

function getCommand_loop :: "buffer \<Rightarrow> nat \<Rightarrow> int \<Rightarrow> int \<times> int" where
  "getCommand_loop buf i bgn =
     (if int i < int (length buf) - 1 then
        (if bgn < 0 then
           (if buf ! i = 0x2b \<and> buf ! (i + 1) = 0x2b
            then getCommand_loop buf (i + 2) (int i)
            else getCommand_loop buf (i + 1) bgn)
         else
           (if buf ! i = 0x2b \<and> buf ! (i + 1) = 0x2b
            then (bgn, int i + 1)
            else getCommand_loop buf (i + 1) bgn))
      else (bgn, -1))"
  by pat_completeness auto
termination
  by (relation "measure (\<lambda>(buf, i, bgn). length buf - i)") auto

definition getCommand :: "buffer \<Rightarrow> buffer" where
  "getCommand buf =
     (case getCommand_loop buf 0 (-1) of
        (bgn, fin) \<Rightarrow> if bgn < 0 \<or> fin < 0 then [] else js_slice buf bgn (fin + 1))"

section \<open>Historical record decoder\<close>

text \<open>
  The object \<^verbatim>\<open>recoder\<close> that \<^verbatim>\<open>parsePayload\<close> builds for a record. The three rate
  properties are set later, so each may be absent. The entries of the alarm, status,
  reservoir and prime lists are \<^verbatim>\<open>{index, type, deviceTime}\<close>.
\<close>

record recoder =
  deviceTime :: string
  recordId :: nat
  eventPort :: nat
  deviceSn :: string
  BasalRate :: "jsnum option"
  BloodGlucose :: "string option"
  BolusRate :: "string option"

record event =
  ev_index :: nat
  ev_type :: string
  ev_deviceTime :: string

text \<open>The result object \<^verbatim>\<open>inComeRes\<close> (its \<^verbatim>\<open>sn\<close> and \<^verbatim>\<open>snObj\<close> are never written).\<close>

record inComeRes =
  BloodGlucoses :: "recoder list"
  BasalRates :: "recoder list"
  BolusRates :: "recoder list"
  lastBasals :: "recoder list"
  alarm :: "event list"
  status :: "event list"
  reservoirChanges :: "event list"
  primes :: "event list"

definition emptyRes :: inComeRes where
  "emptyRes =
     \<lparr>BloodGlucoses = [], BasalRates = [], BolusRates = [], lastBasals = [],
      alarm = [], status = [], reservoirChanges = [], primes = []\<rparr>"

subsection \<open>The fields of one 28-byte slice\<close>

definition ID_of :: "buffer \<Rightarrow> buffer" where
  "ID_of history = slice history 0 4"

definition SN_of :: "buffer \<Rightarrow> buffer" where
  "SN_of history = slice history 4 10"

definition dateTime_of :: "buffer \<Rightarrow> buffer" where
  "dateTime_of history = slice history 10 16"

definition status_of :: "buffer \<Rightarrow> buffer" where
  "status_of history = slice history 16 22"

definition event_of :: "buffer \<Rightarrow> buffer" where
  "event_of history = slice history 22 28"

definition recordID_of :: "buffer \<Rightarrow> nat" where
  "recordID_of history = uintFromArrayBuffer (ID_of history) True"

definition deviceSn_of :: "buffer \<Rightarrow> string" where
  "deviceSn_of history = uint8ArrayToString (SN_of history)"

definition year_of :: "buffer \<Rightarrow> nat" where
  "year_of history = uintFromArrayBuffer (slice (dateTime_of history) 0 1) True + 2000"

definition month_of :: "buffer \<Rightarrow> nat" where
  "month_of history = uintFromArrayBuffer (slice (dateTime_of history) 1 2) True"

definition day_of :: "buffer \<Rightarrow> nat" where
  "day_of history = uintFromArrayBuffer (slice (dateTime_of history) 2 3) True"

definition hour_of :: "buffer \<Rightarrow> nat" where
  "hour_of history = uintFromArrayBuffer (slice (dateTime_of history) 3 4) True"

definition minute_of :: "buffer \<Rightarrow> nat" where
  "minute_of history = uintFromArrayBuffer (slice (dateTime_of history) 4 5) True"

definition second_of :: "buffer \<Rightarrow> nat" where
  "second_of history = uintFromArrayBuffer (slice (dateTime_of history) 5 6) True"

definition battery_of :: "buffer \<Rightarrow> nat" where
  "battery_of history = uintFromArrayBuffer (slice (status_of history) 0 1) True"

definition reservoir_of :: "buffer \<Rightarrow> nat" where
  "reservoir_of history = uintFromArrayBuffer (slice (status_of history) 1 2) True"

definition basalRate_of :: "buffer \<Rightarrow> nat" where
  "basalRate_of history = uintFromArrayBuffer (slice (status_of history) 2 4) True"

definition bolusRate_of :: "buffer \<Rightarrow> nat" where
  "bolusRate_of history = uintFromArrayBuffer (slice (status_of history) 4 6) True"

definition eventIndex_of :: "buffer \<Rightarrow> nat" where
  "eventIndex_of history = uintFromArrayBuffer (slice (event_of history) 0 2) True"

definition eventPort_of :: "buffer \<Rightarrow> nat" where
  "eventPort_of history = uintFromArrayBuffer (slice (event_of history) 2 3) True"

definition eventType_of :: "buffer \<Rightarrow> nat" where
  "eventType_of history = uintFromArrayBuffer (slice (event_of history) 3 4) True"

definition eventUrgency_of :: "buffer \<Rightarrow> nat" where
  "eventUrgency_of history = uintFromArrayBuffer (slice (event_of history) 4 5) True"


text \<open>\<^verbatim>\<open>(n + 100).toString().substring(1)\<close>, the two-digit rendering of the date parts.\<close>

definition two_digits :: "nat \<Rightarrow> string" where
  "two_digits n = substring (toString (n + 100)) 1"

definition timeText_of :: "buffer \<Rightarrow> string" where
  "timeText_of history =
     toString (year_of history) @ ''-'' @ two_digits (month_of history) @ ''-'' @
     two_digits (day_of history) @ ''T'' @ two_digits (hour_of history) @ '':'' @
     two_digits (minute_of history) @ '':'' @ two_digits (second_of history)"

definition recoder_of :: "buffer \<Rightarrow> recoder" where
  "recoder_of history =
     \<lparr>deviceTime = timeText_of history, recordId = recordID_of history,
      eventPort = eventPort_of history, deviceSn = deviceSn_of history,
      BasalRate = None, BloodGlucose = None, BolusRate = None\<rparr>"

text \<open>
  The test \<^verbatim>\<open>SN == '000000'\<close> compares a buffer with a string: the buffer is converted
  with its \<^verbatim>\<open>toString()\<close>, which decodes the bytes as UTF-8, and only six bytes \<^verbatim>\<open>0x30\<close>
  (the character \<^verbatim>\<open>0\<close>) decode to that string.
\<close>

definition SN_is_000000 :: "buffer \<Rightarrow> bool" where
  "SN_is_000000 SN = (SN = replicate 6 0x30)"

subsection \<open>Alarm, status, reservoir and prime events\<close>

definition mk_event :: "buffer \<Rightarrow> string \<Rightarrow> event" where
  "mk_event history ty =
     \<lparr>ev_index = eventIndex_of history, ev_type = ty, ev_deviceTime = timeText_of history\<rparr>"

text \<open>The ten \<^verbatim>\<open>if\<close> statements before the boundary test, in the order of the source.\<close>

definition pushEvents :: "buffer \<Rightarrow> inComeRes \<Rightarrow> inComeRes" where
  "pushEvents history r0 =
     (let p = eventPort_of history; t = eventType_of history; u = eventUrgency_of history;
          r1 = (if p = 4 \<and> t = 1 \<and> u = 1
                then r0\<lparr>alarm := alarm r0 @ [mk_event history ''low_insulin'']\<rparr> else r0);
          r2 = (if p = 4 \<and> t = 5 \<and> u = 0
                then r1\<lparr>status := status r1 @ [mk_event history ''suspend'']\<rparr> else r1);
          r3 = (if p = 4 \<and> t = 1 \<and> u = 2
                then r2\<lparr>alarm := alarm r2 @ [mk_event history ''no_insulin'']\<rparr> else r2);
          r4 = (if p = 5 \<and> t = 0 \<and> u = 1
                then r3\<lparr>alarm := alarm r3 @ [mk_event history ''low_power'']\<rparr> else r3);
          r5 = (if p = 5 \<and> t = 1 \<and> u = 2
                then r4\<lparr>alarm := alarm r4 @ [mk_event history ''no_power'']\<rparr> else r4);
          r6 = (if p = 4 \<and> t = 6 \<and> u = 2
                then r5\<lparr>alarm := alarm r5 @ [mk_event history ''auto_off'']\<rparr> else r5);
          r7 = (if p = 4 \<and> t = 2
                then r6\<lparr>alarm := alarm r6 @ [mk_event history ''occlusion'']\<rparr> else r6);
          r8 = (if p = 4 \<and> t = 8
                then r7\<lparr>reservoirChanges :=
                          reservoirChanges r7 @ [mk_event history ''reservoirChanges'']\<rparr>
                else r7);
          r9 = (if p = 4 \<and> t = 7
                then r8\<lparr>primes := primes r8 @ [mk_event history ''prime'']\<rparr> else r8);
          r10 = (if p = 4 \<and> t = 3
                 then r9\<lparr>alarm := alarm r9 @ [mk_event history ''occlusion'']\<rparr> else r9)
      in r10)"

subsection \<open>Glucose, basal and bolus samples\<close>

text \<open>\<^verbatim>\<open>parseInt(formatString(basalRate.toString(), 4, true)) * 0.00625\<close>.\<close>

definition basalValue :: "env \<Rightarrow> buffer \<Rightarrow> jsnum" where
  "basalValue E history =
     js_mul (parseInt (formatString E (toString (basalRate_of history)) 4 True))
            (Num (625 / 100000))"

definition bolusText :: "env \<Rightarrow> buffer \<Rightarrow> string" where
  "bolusText E history = formatString E (toString (bolusRate_of history)) 6 True"

text \<open>
  Whether the record is pushed on \<^verbatim>\<open>BolusRates\<close>: a zero rate only after a non-zero one
  or as the first entry, any other rate (\<open>NaN\<close> too) always.
\<close>

definition pushesBolus :: "env \<Rightarrow> buffer \<Rightarrow> recoder list \<Rightarrow> bool" where
  "pushesBolus E history rates =
     (if js_eq (parseInt (bolusText E history)) (Num 0)
      then (if rates \<noteq> [] \<and> \<not> js_eq (parseIntOpt (BolusRate (last rates))) (Num 0)
            then True else rates = [])
      else True)"

text \<open>
  The part of the loop body after the boundary test. The object pushed on \<^verbatim>\<open>BasalRates\<close>
  and on \<^verbatim>\<open>BolusRates\<close> is one and the same, so the basal entry shows the bolus rate that
  is written afterwards: the model pushes the final state of the object on both lists.
\<close>

definition pushSamples :: "env \<Rightarrow> buffer \<Rightarrow> inComeRes \<Rightarrow> inComeRes" where
  "pushSamples E history r =
     (if eventPort_of history = 3 \<and> eventType_of history = 0 then
        r\<lparr>BloodGlucoses := BloodGlucoses r @
             [(recoder_of history)\<lparr>BloodGlucose :=
                 Some (formatString E (toString (basalRate_of history)) 4 True)\<rparr>]\<rparr>
      else if eventPort_of history = 3 \<and> eventType_of history = 1 then r
      else
        (let rec1 = (if eventPort_of history \<noteq> 3
                     then (recoder_of history)\<lparr>BasalRate := Some (basalValue E history)\<rparr>
                     else recoder_of history);
             rec2 = (if pushesBolus E history (BolusRates r)
                     then rec1\<lparr>BolusRate := Some (bolusText E history)\<rparr> else rec1);
             ra = (if eventPort_of history \<noteq> 3
                   then r\<lparr>BasalRates := BasalRates r @ [rec2]\<rparr> else r)
         in if pushesBolus E history (BolusRates r)
            then ra\<lparr>BolusRates := BolusRates ra @ [rec2]\<rparr> else ra))"

text \<open>The body of the loop for one slice: \<^verbatim>\<open>continue\<close> returns the result so far.\<close>

definition parseRecord :: "env \<Rightarrow> jsnum \<Rightarrow> buffer \<Rightarrow> inComeRes \<Rightarrow> inComeRes" where
  "parseRecord E lastUpload history r =
     (if SN_is_000000 (SN_of history) then r
      else
        (let r' = pushEvents history r in
         if js_lt (dateValueOf E (timeText_of history)) lastUpload then
           (if eventPort_of history \<noteq> 3
            then r'\<lparr>lastBasals := lastBasals r' @
                     [(recoder_of history)\<lparr>BasalRate := Some (basalValue E history)\<rparr>]\<rparr>
            else r')
         else pushSamples E history r'))"

function parseLoop :: "env \<Rightarrow> jsnum \<Rightarrow> buffer \<Rightarrow> nat \<Rightarrow> inComeRes \<Rightarrow> inComeRes" where
  "parseLoop E lastUpload payload i r =
     (if i < length payload
      then parseLoop E lastUpload payload (i + 28)
             (parseRecord E lastUpload (slice payload i (i + 28)) r)
      else r)"
  by pat_completeness auto
termination
  by (relation "measure (\<lambda>(E, lastUpload, payload, i, r). length payload - i)") auto

text \<open>
  \<^verbatim>\<open>lastBasals.sort(...)\<close> with the comparator \<^verbatim>\<open>a.deviceTime < b.deviceTime ? -1 : 1\<close>: an
  insertion sort that keeps the order of entries the comparator does not separate.
\<close>

fun insertByTime :: "recoder \<Rightarrow> recoder list \<Rightarrow> recoder list" where
  "insertByTime x [] = [x]"
| "insertByTime x (y # ys) =
     (if js_str_lt (deviceTime x) (deviceTime y) then x # y # ys
      else y # insertByTime x ys)"

definition sortByDeviceTime :: "recoder list \<Rightarrow> recoder list" where
  "sortByDeviceTime xs = foldl (\<lambda>acc x. insertByTime x acc) [] xs"

text \<open>After the loop the latest entry of \<^verbatim>\<open>lastBasals\<close> is put before \<^verbatim>\<open>BasalRates\<close>.\<close>

definition carryForward :: "inComeRes \<Rightarrow> inComeRes" where
  "carryForward r =
     (if lastBasals r \<noteq> [] then
        (let sorted = sortByDeviceTime (lastBasals r)
         in r\<lparr>lastBasals := sorted, BasalRates := last sorted # BasalRates r\<rparr>)
      else r)"

definition parsePayload :: "env \<Rightarrow> jsnum \<Rightarrow> buffer \<Rightarrow> error + inComeRes" where
  "parsePayload E lastUpload payload =
     (if length payload = 0 then Inl E_READ_FILE
      else if length payload mod 28 \<noteq> 0 then Inl IncorrectPayloadLength
      else Inr (carryForward (parseLoop E lastUpload payload 0 emptyRes)))"

section \<open>Command protocol\<close>

text \<open>
  \<^verbatim>\<open>buildPacket\<close>: the header is port 5, parameter 1, operation 2, the checksum slot and the
  length of payload and digest; the checksum is taken over the header without its slot.
\<close>

definition headerChecksum :: "env \<Rightarrow> buffer \<Rightarrow> byte" where
  "headerChecksum E commandBody = cRC8 E (slice commandBody 0 3 @ slice_from commandBody 4)"

definition buildPacket :: "env \<Rightarrow> buffer \<Rightarrow> error + buffer" where
  "buildPacket E payload =
     (let md5 = md5_digest E payload;
          data = payload @ md5
      in case writeUInt32LE ([0x05, 0x01, 0x02] @ replicate 5 0) (int (length data)) 4 of
           None \<Rightarrow> Inl RangeError
         | Some commandBody \<Rightarrow>
             (let crc8 = headerChecksum E commandBody;
                  command = packFrame (commandBody[3 := crc8])
              in Inr (command @ data)))"

text \<open>
  \<^verbatim>\<open>parsePacket\<close>: \<^verbatim>\<open>return false\<close> is the error \<open>ReturnedFalse\<close>; every other failure goes
  to the callback.
\<close>

definition parsePacket :: "env \<Rightarrow> jsnum \<Rightarrow> buffer \<Rightarrow> error + inComeRes" where
  "parsePacket E lastUpload packet =
     (let command = getCommand packet in
      if length command < 12 then Inl ReturnedFalse
      else
        (let commandBody = unpackFrame command;
             crc8 = commandBody ! 3
         in case readInt32LE commandBody 4 of
              None \<Rightarrow> Inl RangeError
            | Some len \<Rightarrow>
                if crc8 \<noteq> headerChecksum E commandBody then Inl CRC8Mismatch
                else if int (length packet) < int (length command) + len
                then Inl IncorrectPacketLength
                else
                  (let data = js_slice packet (int (length command)) (int (length command) + len);
                       payload = js_slice data 0 (int (length data) - 16);
                       md5 = js_slice data (int (length data) - 16) (int (length data))
                   in if md5 \<noteq> md5_digest E payload then Inl MD5Mismatch
                      else parsePayload E lastUpload payload)))"

section \<open>A sample environment\<close>

text \<open>
  One instance of the outside functions, to run the model on concrete inputs. Only
  \<open>formatString_spec\<close> claims to be the driver's helper; the others are simple stand-ins of
  the right shape.
\<close>

text \<open>
  Modelled from the spec: \<^verbatim>\<open>formatString(text, length, true)\<close> of \<^verbatim>\<open>./utils\<close> is not among
  the sources; the driver's log line and the claims use it to render a number as a decimal
  string padded with zeros on the left up to the given length.
\<close>

definition formatString_spec :: "string \<Rightarrow> nat \<Rightarrow> bool \<Rightarrow> string" where
  "formatString_spec s n flag = replicate (n - length s) CHR ''0'' @ s"

definition xorBytes :: "buffer \<Rightarrow> byte" where
  "xorBytes bs = foldl (\<lambda>a b. xor a b) 0 bs"

definition lengthDigest :: "buffer \<Rightarrow> buffer" where
  "lengthDigest p = replicate 16 (of_nat (length p))"

text \<open>Days from 1970-01-01 to a date of the proleptic Gregorian calendar.\<close>

definition daysFromCivil :: "int \<Rightarrow> int \<Rightarrow> int \<Rightarrow> int" where
  "daysFromCivil y m d =
     (let y' = (if m \<le> 2 then y - 1 else y);
          era = y' div 400;
          yoe = y' - era * 400;
          doy = (153 * (if m > 2 then m - 3 else m + 9) + 2) div 5 + d - 1;
          doe = yoe * 365 + yoe div 4 - yoe div 100 + doy
      in era * 146097 + doe - 719468)"

definition allDigits :: "string \<Rightarrow> nat option" where
  "allDigits s =
     (if s \<noteq> [] \<and> list_all (\<lambda>c. digit_value 10 c \<noteq> None) s
      then Some (foldl (\<lambda>a c. a * 10 + the (digit_value 10 c)) 0 s) else None)"

text \<open>
  The milliseconds since the epoch of a text \<^verbatim>\<open>YYYY-MM-DDTHH:MM:SS\<close>, read in a time zone
  without offset; any other text, and a part out of range, gives \<open>NaN\<close>.
\<close>

definition utcDateValue :: "string \<Rightarrow> jsnum" where
  "utcDateValue s =
     (if length s = 19 \<and> s ! 4 = CHR ''-'' \<and> s ! 7 = CHR ''-'' \<and> s ! 10 = CHR ''T''
         \<and> s ! 13 = CHR '':'' \<and> s ! 16 = CHR '':''
      then
        (case those [allDigits (take 4 s), allDigits (take 2 (drop 5 s)),
                     allDigits (take 2 (drop 8 s)), allDigits (take 2 (drop 11 s)),
                     allDigits (take 2 (drop 14 s)), allDigits (take 2 (drop 17 s))] of
           Some [y, m, d, h, mi, se] \<Rightarrow>
             if 1 \<le> m \<and> m \<le> 12 \<and> 1 \<le> d \<and> d \<le> 31 \<and> h \<le> 23 \<and> mi \<le> 59 \<and> se \<le> 59
             then Num (of_int
                    (((daysFromCivil (int y) (int m) (int d) * 24 + int h) * 60 + int mi) * 60
                       + int se) * 1000)
             else NaN
         | _ \<Rightarrow> NaN)
      else NaN)"

definition sampleEnv :: env where
  "sampleEnv =
     \<lparr>cRC8 = xorBytes, md5_digest = lengthDigest, formatString = formatString_spec,
      dateValueOf = utcDateValue, decodeURIComponent = Some\<rparr>"

text \<open>
  A sample history record: record 1 of device \<^verbatim>\<open>123456\<close> at 2021-01-01T00:00:00, battery
  90, reservoir 100, basal rate 80, bolus rate 0, event 1 of port 4, type 1, urgency 1 (low
  insulin). The second sample is a glucose record (port 3, type 0) with 105 in the basal
  slot and 7 as its event value.
\<close>

definition sampleRecord :: buffer where
  "sampleRecord =
     [1, 0, 0, 0,  0x31, 0x32, 0x33, 0x34, 0x35, 0x36,  21, 1, 1, 0, 0, 0,
      90, 100, 80, 0, 0, 0,  1, 0, 4, 1, 1, 0]"

definition sampleGlucose :: buffer where
  "sampleGlucose =
     [2, 0, 0, 0,  0x31, 0x32, 0x33, 0x34, 0x35, 0x36,  21, 1, 1, 0, 0, 0,
      90, 100, 105, 0, 0, 0,  2, 0, 3, 0, 0, 7]"

definition emptySlot :: buffer where
  "emptySlot =
     [3, 0, 0, 0,  0x30, 0x30, 0x30, 0x30, 0x30, 0x30,  21, 1, 1, 0, 0, 0,
      90, 100, 80, 0, 0, 0,  1, 0, 4, 1, 1, 0]"

text \<open>
  A basal record of port 0 with the bolus rate 0, of the first of January of the given year
  at the given minute past midnight; and a payload of three of them: record 1 of 2021 and
  records 2 and 3 of 2024, a minute apart.
\<close>

definition basalRecord :: "byte \<Rightarrow> byte \<Rightarrow> byte \<Rightarrow> byte \<Rightarrow> buffer" where
  "basalRecord ident year minute rate =
     [ident, 0, 0, 0,  0x31, 0x32, 0x33, 0x34, 0x35, 0x36,  year, 1, 1, 0, minute, 0,
      90, 100, rate, 0, 0, 0,  ident, 0, 0, 0, 0, 0]"

definition threeBasals :: buffer where
  "threeBasals = basalRecord 1 21 0 80 @ basalRecord 2 24 0 80 @ basalRecord 3 24 1 96"

section \<open>The header of a packet and the search for its frame\<close>

text \<open>The eight header bytes that \<^verbatim>\<open>buildPacket\<close> frames for a payload.\<close>

definition commandBody_of :: "env \<Rightarrow> buffer \<Rightarrow> buffer" where
  "commandBody_of E payload =
     (let len = bytesLE32 (int (length payload + length (md5_digest E payload)))
      in [0x05, 0x01, 0x02, cRC8 E ([0x05, 0x01, 0x02] @ len)] @ len)"

text \<open>Whether two adjacent bytes of a buffer are the marker \<^verbatim>\<open>0x2b 0x2b\<close>.\<close>

fun markerPair :: "buffer \<Rightarrow> bool" where
  "markerPair (a # b # xs) = ((a = 0x2b \<and> b = 0x2b) \<or> markerPair (b # xs))"
| "markerPair _ = False"

text \<open>
  The second half of the loop of \<^verbatim>\<open>getCommand\<close>, by recursion on the bytes not yet
  read: the index after the first marker from position \<open>i\<close> on, or \<open>-1\<close>.
\<close>

fun scanEnd :: "buffer \<Rightarrow> nat \<Rightarrow> int" where
  "scanEnd (a # b # xs) i =
     (if a = 0x2b \<and> b = 0x2b then int i + 1 else scanEnd (b # xs) (i + 1))"
| "scanEnd _ i = -1"

section \<open>Delivery reconstruction\<close>

subsection \<open>Quantising an amount\<close>

text \<open>
  \<^verbatim>\<open>formatDecimal(x, decimal)\<close> prints the number, cuts the text after \<open>decimal\<close> digits
  behind the point and reads it back; \<^verbatim>\<open>toFixed\<close> then only pads with zeros. On the number
  this is the truncation towards zero to \<open>decimal\<close> digits. The model covers the numbers that
  \<^verbatim>\<open>toString\<close> prints in plain decimal notation, which are zero and those of magnitude
  from \<open>10^-6\<close> up to \<open>10^21\<close>; every amount of the driver is a multiple of
  \<open>0.00625 / 3600\<close> and so among them.
\<close>

fun formatDecimal :: "jsnum \<Rightarrow> nat \<Rightarrow> jsnum" where
  "formatDecimal (Num x) decimal =
     Num (of_int (if 0 \<le> x then \<lfloor>x * 10 ^ decimal\<rfloor> else \<lceil>x * 10 ^ decimal\<rceil>) / 10 ^ decimal)"
| "formatDecimal NaN decimal = NaN"

definition buildValue :: "jsnum \<Rightarrow> jsnum" where
  "buildValue originValue =
     (let v = formatDecimal originValue 2;
          res = js_div (js_mul v (Num 1000)) (Num 25);
          floorRes = js_floor res;
          floor25 = js_mul floorRes (Num 25)
      in if js_lt floorRes res then js_div (js_add floor25 (Num 25)) (Num 1000)
         else js_div floor25 (Num 1000))"


subsection \<open>Bolus episodes\<close>

text \<open>
  The records handed to the record builder, with the values given to it: \<^verbatim>\<open>with_normal\<close>,
  \<^verbatim>\<open>with_extended\<close>, \<^verbatim>\<open>with_duration\<close>, the time stamp that \<^verbatim>\<open>with_deviceTime\<close> formats,
  and the index. \<open>NormalBolus normal time index\<close>, \<open>SquareBolus extended duration time index\<close>
  and \<open>DualBolus normal extended duration time index\<close>.
\<close>

datatype postbolus =
    NormalBolus jsnum jsnum nat
  | SquareBolus jsnum jsnum jsnum nat
  | DualBolus jsnum jsnum jsnum jsnum nat

text \<open>\<^verbatim>\<open>new Date(x.deviceTime).valueOf()\<close>.\<close>

definition timeStamp :: "env \<Rightarrow> recoder \<Rightarrow> jsnum" where
  "timeStamp E x = dateValueOf E (deviceTime x)"

text \<open>The time stamp of \<^verbatim>\<open>bolus[i + 1]\<close>, or that of \<^verbatim>\<open>bolus[i]\<close> for the last entry.\<close>

definition nextTimeStamp :: "env \<Rightarrow> recoder \<Rightarrow> recoder list \<Rightarrow> jsnum" where
  "nextTimeStamp E x rest = (case rest of [] \<Rightarrow> timeStamp E x | y # ys \<Rightarrow> timeStamp E y)"

text \<open>\<^verbatim>\<open>(parseInt(rate) * 0.00625 * durCalcut) / (60 * 60)\<close> with \<^verbatim>\<open>durCalcut\<close> in seconds.\<close>

definition boluMount :: "env \<Rightarrow> recoder \<Rightarrow> recoder list \<Rightarrow> jsnum" where
  "boluMount E x rest =
     (let durCalcut = js_div (js_sub (nextTimeStamp E x rest) (timeStamp E x)) (Num 1000)
      in js_div (js_mul (js_mul (parseIntOpt (BolusRate x)) (Num (625 / 100000))) durCalcut)
           (Num 3600))"

definition checkBolus :: "recoder list \<Rightarrow> string" where
  "checkBolus blous =
     (let square = list_ex (\<lambda>item. js_lt (Num 0) (parseIntOpt (BolusRate item))
                                  \<and> js_le (parseIntOpt (BolusRate item)) (Num 12800)) blous;
          normal = list_ex (\<lambda>item. js_lt (Num 12800) (parseIntOpt (BolusRate item))) blous
      in if normal \<and> square then ''dulSquare''
         else if normal \<and> \<not> square then ''normal''
         else if \<not> normal \<and> square then ''square''
         else [])"

fun buildBolusNormal :: "env \<Rightarrow> recoder list \<Rightarrow> postbolus list" where
  "buildBolusNormal E [] = []"
| "buildBolusNormal E (x # rest) =
     (if BolusRate x \<noteq> Some ''0''
      then [NormalBolus (buildValue (boluMount E x rest)) (timeStamp E x) (recordId x)]
      else []) @ buildBolusNormal E rest"

fun buildBolusSquare :: "env \<Rightarrow> recoder list \<Rightarrow> postbolus list" where
  "buildBolusSquare E [] = []"
| "buildBolusSquare E (x # rest) =
     (if BolusRate x \<noteq> Some ''0''
      then [SquareBolus (buildValue (boluMount E x rest))
              (js_sub (nextTimeStamp E x rest) (timeStamp E x)) (timeStamp E x) (recordId x)]
      else []) @ buildBolusSquare E rest"

text \<open>The five variables of the loop of \<^verbatim>\<open>buildBolusDualSquare\<close>.\<close>

record dualAcc =
  acc_normal :: jsnum
  acc_square :: jsnum
  acc_dur :: jsnum
  acc_deviceTime :: "string option"
  acc_index :: nat

fun dualLoop :: "env \<Rightarrow> recoder list \<Rightarrow> dualAcc \<Rightarrow> dualAcc" where
  "dualLoop E [] a = a"
| "dualLoop E (x # rest) a =
     (let currDur = js_sub (nextTimeStamp E x rest) (timeStamp E x);
          a1 = (if BolusRate x \<noteq> Some ''0'' \<and> js_lt (Num 12800) (parseIntOpt (BolusRate x))
                then a\<lparr>acc_normal := js_add (boluMount E x rest) (acc_normal a),
                       acc_deviceTime := Some (deviceTime x), acc_index := recordId x\<rparr>
                else a);
          a2 = (if BolusRate x \<noteq> Some ''0'' \<and> js_lt (parseIntOpt (BolusRate x)) (Num 12800)
                then a1\<lparr>acc_square := js_add (boluMount E x rest) (acc_square a1),
                        acc_dur := js_add currDur (acc_dur a1)\<rparr>
                else a1)
      in dualLoop E rest a2)"

definition buildBolusDualSquare :: "env \<Rightarrow> recoder list \<Rightarrow> postbolus list" where
  "buildBolusDualSquare E bolus =
     (let a = dualLoop E bolus
                \<lparr>acc_normal = Num 0, acc_square = Num 0, acc_dur = Num 0,
                 acc_deviceTime = None, acc_index = 0\<rparr>
      in [DualBolus (buildValue (acc_normal a)) (buildValue (acc_square a)) (acc_dur a)
            (case acc_deviceTime a of None \<Rightarrow> NaN | Some t \<Rightarrow> dateValueOf E t)
            (acc_index a)])"

text \<open>
  \<^verbatim>\<open>buildBolus\<close>: the loop over the samples with the buffer \<^verbatim>\<open>itemRes\<close> and the result
  \<^verbatim>\<open>postRes\<close>. The first sample of a run is buffered whatever its rate; a later one ends
  the run when its rate is the text \<^verbatim>\<open>0\<close>.
\<close>

fun buildBolus_loop ::
  "env \<Rightarrow> recoder list \<Rightarrow> recoder list \<Rightarrow> postbolus list \<Rightarrow> postbolus list" where
  "buildBolus_loop E [] itemRes postRes = postRes"
| "buildBolus_loop E (bolus # rest) itemRes postRes =
     (if itemRes = [] then buildBolus_loop E rest [bolus] postRes
      else if BolusRate bolus = Some ''0'' then
        (let items = itemRes @ [bolus];
             chckRes = checkBolus items;
             p1 = (if chckRes = ''normal'' then postRes @ buildBolusNormal E items else postRes);
             p2 = (if chckRes = ''square'' then p1 @ buildBolusSquare E items else p1);
             p3 = (if chckRes = ''dulSquare'' then p2 @ buildBolusDualSquare E items else p2)
         in buildBolus_loop E rest [] p3)
      else buildBolus_loop E rest (itemRes @ [bolus]) postRes)"

definition buildBolus :: "env \<Rightarrow> recoder list \<Rightarrow> postbolus list" where
  "buildBolus E rates = buildBolus_loop E rates [] []"

subsection \<open>Basal segments\<close>

text \<open>
  What \<^verbatim>\<open>buildBasal\<close> hands to the builder of a scheduled basal: the time stamp, the rate
  (the property \<^verbatim>\<open>BasalRate\<close>, which may be absent), the duration and the index; the
  finished record may carry a copy of its predecessor without that one's own predecessor.
\<close>

record basalFields =
  sb_deviceTime :: jsnum
  sb_rate :: "jsnum option"
  sb_duration :: jsnum
  sb_index :: nat

record scheduledBasal = basalFields +
  previous :: "basalFields option"

text \<open>
  The loop of \<^verbatim>\<open>buildBasal\<close> over the sorted samples: the last sample ends the loop
  (\<^verbatim>\<open>break\<close>), every other one gives a segment up to its successor, at most a week long.
  \<open>prev\<close> is \<^verbatim>\<open>res[i - 1]\<close>.
\<close>

fun buildBasal_loop :: "env \<Rightarrow> recoder list \<Rightarrow> basalFields option \<Rightarrow> scheduledBasal list" where
  "buildBasal_loop E (x # y # rest) prev =
     (let currDu = timeStamp E x;
          nextDu = timeStamp E y;
          currentDur = (if js_lt (js_sub nextDu currDu) (Num 604800000)
                        then js_sub nextDu currDu else Num 604799999);
          fields = \<lparr>sb_deviceTime = currDu, sb_rate = BasalRate x,
                    sb_duration = currentDur, sb_index = recordId x\<rparr>
      in basalFields.extend fields \<lparr>previous = prev\<rparr>
           # buildBasal_loop E (y # rest) (Some fields))"
| "buildBasal_loop E xs prev = []"

definition buildBasal :: "env \<Rightarrow> recoder list \<Rightarrow> scheduledBasal list" where
  "buildBasal E rates = buildBasal_loop E (sortByDeviceTime rates) None"

subsection \<open>Assembling the upload\<close>

text \<open>
  The records of an upload. A glucose record holds the text handed to \<^verbatim>\<open>parseFloat\<close> and
  its time stamp (its index is deleted); the settings record is built from the device
  settings alone and stands as one opaque entry.
\<close>

datatype post_record =
    SMBG "string option" jsnum
  | Basal scheduledBasal
  | Bolus postbolus
  | PumpSettings
  | Alarm event
  | Suspend event
  | Prime event
  | ReservoirChange event

definition buildBlood :: "env \<Rightarrow> jsnum \<Rightarrow> recoder list \<Rightarrow> post_record list" where
  "buildBlood E lastUpload glucoses =
     map (\<lambda>blood. SMBG (BloodGlucose blood) (timeStamp E blood))
       (filter (\<lambda>blood. \<not> js_lt (timeStamp E blood) lastUpload) glucoses)"

text \<open>
  \<^verbatim>\<open>processData\<close> reads the lists that \<^verbatim>\<open>fetchData\<close> copied from the result of
  \<^verbatim>\<open>parsePacket\<close>. The settings record is a single entry of the concatenation, so the list
  is never empty.
\<close>

definition processData :: "env \<Rightarrow> jsnum \<Rightarrow> inComeRes \<Rightarrow> error + post_record list" where
  "processData E lastUpload data =
     (let bloodRes = buildBlood E lastUpload (BloodGlucoses data);
          basalRes = buildBasal E (BasalRates data);
          bolusRes = buildBolus E (BolusRates data);
          reservoirs = map ReservoirChange (reservoirChanges data);
          primeRes = map Prime (primes data);
          basalRes' = (if length basalRes > 1 then basalRes else []);
          alermRes = map Alarm (alarm data);
          statusRes = map Suspend (status data);
          post_records = bloodRes @ map Basal basalRes' @ map Bolus bolusRes @ [PumpSettings]
                           @ alermRes @ statusRes @ primeRes @ reservoirs
      in if post_records = [] then Inl E_NO_NEW_RECORDS else Inr post_records)"

fun is_Basal :: "post_record \<Rightarrow> bool" where
  "is_Basal (Basal b) = True"
| "is_Basal _ = False"

text \<open>Sample bolus runs: three samples a minute apart, with the rates as texts.\<close>

definition sample :: "string \<Rightarrow> nat \<Rightarrow> string \<Rightarrow> recoder" where
  "sample time ident rate =
     \<lparr>deviceTime = time, recordId = ident, eventPort = 0, deviceSn = ''123456'',
      BasalRate = Some (Num (1 / 2)), BloodGlucose = None, BolusRate = Some rate\<rparr>"

definition sampleRun :: "string \<Rightarrow> string \<Rightarrow> string \<Rightarrow> recoder list" where
  "sampleRun r0 r1 r2 =
     [sample ''2021-01-01T00:00:00'' 1 r0, sample ''2021-01-01T00:01:00'' 2 r1,
      sample ''2021-01-01T00:02:00'' 3 r2]"

section \<open>Settings enumerator\<close>























section \<open>Lemmas on buffers and on the record loop\<close>

lemma slice_take_drop: "slice xs a b = take (b - a) (drop a xs)"
  unfolding slice_def js_slice_def Let_def
  by (cases "a \<le> length xs"; cases "b \<le> length xs") (auto simp: min_def nat_diff_distrib')


lemma parseLoop_unfold:
  "parseLoop E lu payload i r =
     (if i < length payload
      then parseLoop E lu payload (i + 28) (parseRecord E lu (slice payload i (i + 28)) r)
      else r)"
  by (rule parseLoop.simps)

declare parseLoop.simps [simp del]

text \<open>The loop from index \<open>i + k\<close> is the loop from \<open>i\<close> over the payload without its first \<open>k\<close> bytes.\<close>

lemma parseLoop_shift:
  "parseLoop E lu payload (i + k) r = parseLoop E lu (drop k payload) i r"
proof (induction E lu payload "i + k" r arbitrary: i rule: parseLoop.induct)
  case (1 E lu payload r)
  show ?case
  proof (cases "i + k < length payload")
    case True
    have e: "i + k + 28 = (i + 28) + k" by simp
    have s: "slice payload (i + k) (i + k + 28) = slice (drop k payload) i (i + 28)"
      by (simp add: slice_take_drop add.commute)
    have "parseLoop E lu payload (i + k) r =
          parseLoop E lu payload (i + k + 28)
            (parseRecord E lu (slice payload (i + k) (i + k + 28)) r)"
      using True by (subst parseLoop_unfold) simp
    also have "\<dots> = parseLoop E lu payload (i + 28 + k)
                       (parseRecord E lu (slice payload (i + k) (i + k + 28)) r)"
      by (simp add: e)
    also have "\<dots> = parseLoop E lu (drop k payload) (i + 28)
                       (parseRecord E lu (slice payload (i + k) (i + k + 28)) r)"
      by (rule "1.hyps"[OF True e])
    also have "\<dots> = parseLoop E lu (drop k payload) i r"
      using True by (subst (2) parseLoop_unfold) (simp add: s)
    finally show ?thesis .
  next
    case False
    then show ?thesis by (subst parseLoop_unfold, subst (2) parseLoop_unfold) simp
  qed
qed

lemma parseLoop_step:
  "payload \<noteq> [] \<Longrightarrow>
   parseLoop E lu payload 0 r =
     parseLoop E lu (drop 28 payload) 0 (parseRecord E lu (take 28 payload) r)"
  using parseLoop_shift[of E lu payload 0 28]
  by (subst parseLoop_unfold) (simp add: slice_take_drop)

lemma parseLoop_Nil: "parseLoop E lu [] 0 r = r"
  by (subst parseLoop_unfold) simp

lemma parseLoop_append:
  "length pre = 28 * n \<Longrightarrow>
   parseLoop E lu (pre @ rest) 0 r = parseLoop E lu rest 0 (parseLoop E lu pre 0 r)"
proof (induction n arbitrary: pre r)
  case 0
  then show ?case by (simp add: parseLoop_Nil)
next
  case (Suc n)
  then have ne: "pre \<noteq> []" and l: "length (drop 28 pre) = 28 * n" by auto
  have "parseLoop E lu (pre @ rest) 0 r =
        parseLoop E lu (drop 28 pre @ rest) 0 (parseRecord E lu (take 28 pre) r)"
    using ne Suc.prems by (subst parseLoop_step) auto
  also have "\<dots> = parseLoop E lu rest 0
                     (parseLoop E lu (drop 28 pre) 0 (parseRecord E lu (take 28 pre) r))"
    using Suc.IH[OF l] .
  also have "parseLoop E lu (drop 28 pre) 0 (parseRecord E lu (take 28 pre) r) =
             parseLoop E lu pre 0 r"
    using ne by (subst (2) parseLoop_step) auto
  finally show ?case .
qed

lemma parseLoop_single:
  "length history = 28 \<Longrightarrow> parseLoop E lu history 0 r = parseRecord E lu history r"
  by (subst parseLoop_step) (auto simp: parseLoop_Nil)



lemma pushEvents_samples:
  "BloodGlucoses (pushEvents history r) = BloodGlucoses r"
  "BasalRates (pushEvents history r) = BasalRates r"
  "BolusRates (pushEvents history r) = BolusRates r"
  "lastBasals (pushEvents history r) = lastBasals r"
  by (simp_all add: pushEvents_def Let_def)


section \<open>Lemmas on the frame codec\<close>

lemma le32_sum:
  fixes v :: nat
  assumes "v < 2 ^ 32"
  shows "v mod 256 + 256 * (v div 256 mod 256 + 256 * (v div 65536 mod 256 + 256 * (v div 16777216 mod 256))) = v"
proof -
  define a where "a = v div 256"
  define b where "b = a div 256"
  define c where "c = b div 256"
  define m0 where "m0 = v mod 256"
  define m1 where "m1 = a mod 256"
  define m2 where "m2 = b mod 256"
  have e0: "v = 256 * a + m0" by (simp add: a_def m0_def)
  have e1: "a = 256 * b + m1" by (simp add: b_def m1_def)
  have e2: "b = 256 * c + m2" by (simp add: c_def m2_def)
  have d2: "v div 65536 = b" by (simp add: a_def b_def div_mult2_eq[symmetric])
  have d3: "v div 16777216 = c" by (simp add: a_def b_def c_def div_mult2_eq[symmetric])
  have "c < 256" using assms unfolding d3[symmetric] by (simp add: less_mult_imp_div_less)
  then have c: "c mod 256 = c" by simp
  have "m0 + 256 * (m1 + 256 * (m2 + 256 * c)) = v"
    by (subst e0, subst e1, subst e2) (simp add: algebra_simps)
  then show ?thesis
    by (simp only: d2 d3 c flip: a_def m0_def m1_def m2_def)
qed

lemma bytesLE32_nat:
  "bytesLE32 (int v) =
     [of_nat (v mod 256), of_nat (v div 256 mod 256),
      of_nat (v div 65536 mod 256), of_nat (v div 16777216 mod 256)]"
proof -
  have "int v mod 256 = int (v mod 256)" "int v div 256 mod 256 = int (v div 256 mod 256)"
    "int v div 65536 mod 256 = int (v div 65536 mod 256)"
    "int v div 16777216 mod 256 = int (v div 16777216 mod 256)"
    by (simp_all add: zdiv_int zmod_int)
  then show ?thesis by (simp add: bytesLE32_def)
qed

lemma uint_bytesLE32: "v < 2 ^ 32 \<Longrightarrow> uintFromArrayBuffer (bytesLE32 (int v)) True = v"
  using le32_sum[of v] by (simp add: bytesLE32_nat unat_of_nat)

lemma sint_of_nat32: "v < 2 ^ 31 \<Longrightarrow> sint (of_nat v :: 32 word) = int v"
proof -
  assume a: "v < 2 ^ 31"
  have "sint (of_nat v :: 32 word) = signed_take_bit 31 (int v)"
    by (simp add: signed_of_nat)
  also have "\<dots> = int v"
  proof (rule signed_take_bit_int_eq_self)
    show "- (2 ^ 31) \<le> int v" by simp
    have "int v < int (2 ^ 31)" using a by (simp only: of_nat_less_iff)
    then show "int v < 2 ^ 31" by simp
  qed
  finally show ?thesis .
qed

lemma length_bytesLE32: "length (bytesLE32 v) = 4"
  by (simp add: bytesLE32_def)

declare getCommand_loop.simps [simp del]

lemma getCommand_loop_scan:
  "0 \<le> bgn \<Longrightarrow> getCommand_loop (pre @ xs) (length pre) bgn = (bgn, scanEnd xs (length pre))"
proof (induction xs "length pre" arbitrary: pre rule: scanEnd.induct)
  case (1 a b xs)
  show ?case
  proof (cases "a = 0x2b \<and> b = 0x2b")
    case True
    then show ?thesis using 1(2)
      by (subst getCommand_loop.simps) (simp add: nth_append)
  next
    case False
    have "getCommand_loop (pre @ a # b # xs) (length pre) bgn =
          getCommand_loop ((pre @ [a]) @ b # xs) (length (pre @ [a])) bgn"
      using False 1(2) by (subst getCommand_loop.simps) (auto simp: nth_append)
    also have "\<dots> = (bgn, scanEnd (b # xs) (length (pre @ [a])))"
      using False by (intro 1(1)[OF _ _ 1(2)]) auto
    finally show ?thesis using False by auto
  qed
qed ((subst getCommand_loop.simps, simp)+)


lemma scanEnd_clean:
  "\<not> markerPair (body @ [0x2b]) \<Longrightarrow>
   scanEnd (body @ 0x2b # 0x2b # data) i = int (i + length body) + 1"
proof (induction body arbitrary: i)
  case Nil
  then show ?case by simp
next
  case (Cons a bs)
  show ?case
  proof (cases bs)
    case Nil
    then show ?thesis using Cons.prems by simp
  next
    case (Cons b bs')
    then show ?thesis using Cons.prems Cons.IH[of "i + 1"] by auto
  qed
qed

lemma scanEnd_dirty:
  "markerPair (body @ [0x2b]) \<Longrightarrow>
   0 < scanEnd (body @ 0x2b # 0x2b # data) i \<and>
   scanEnd (body @ 0x2b # 0x2b # data) i \<le> int (i + length body)"
proof (induction body arbitrary: i)
  case Nil
  then show ?case by simp
next
  case (Cons a bs)
  show ?case
  proof (cases bs)
    case Nil
    then show ?thesis using Cons.prems by simp
  next
    case (Cons b bs')
    then show ?thesis using Cons.prems Cons.IH[of "i + 1"] by auto
  qed
qed

lemma getCommand_loop_packFrame:
  "getCommand_loop (packFrame body @ data) 0 (-1) =
     (0, scanEnd (body @ 0x2b # 0x2b # data) 2)"
proof -
  have "getCommand_loop (packFrame body @ data) 0 (-1) =
        getCommand_loop ([0x2b, 0x2b] @ (body @ 0x2b # 0x2b # data)) (length [0x2b :: byte, 0x2b]) 0"
    by (subst getCommand_loop.simps) (simp add: packFrame_def)
  also have "\<dots> = (0, scanEnd (body @ 0x2b # 0x2b # data) (length [0x2b :: byte, 0x2b]))"
    by (rule getCommand_loop_scan) simp
  finally show ?thesis by (simp add: numeral_2_eq_2)
qed

lemma js_slice_nat: "js_slice xs (int a) (int b) = take (b - a) (drop a xs)"
  using slice_take_drop[of xs a b] by (simp add: slice_def)

lemma getCommand_clean:
  assumes "\<not> markerPair (body @ [0x2b])"
  shows "getCommand (packFrame body @ data) = packFrame body"
proof -
  have l: "int (length (packFrame body)) = int (length body) + 4"
    by (simp add: packFrame_def)
  have "js_slice (packFrame body @ data) 0 (int (length (packFrame body))) = packFrame body"
    using js_slice_nat[of "packFrame body @ data" 0 "length (packFrame body)"] by simp
  then have "js_slice (packFrame body @ data) 0 (int (length body) + 4) = packFrame body"
    by (simp only: l)
  then show ?thesis
    using assms
    by (simp add: getCommand_def getCommand_loop_packFrame scanEnd_clean add.commute)
qed

lemma unpackFrame_packFrame: "unpackFrame (packFrame body) = body"
  by (simp add: unpackFrame_def packFrame_def)

lemma length_commandBody_of: "length (commandBody_of E payload) = 8"
  by (simp add: commandBody_of_def Let_def length_bytesLE32)

lemma getCommand_dirty:
  assumes "markerPair (body @ [0x2b])"
  shows "length (getCommand (packFrame body @ data)) < length body + 4"
proof -
  define fin where "fin = scanEnd (body @ 0x2b # 0x2b # data) 2"
  have f: "0 < fin" "fin \<le> int (2 + length body)"
    using scanEnd_dirty[OF assms, of data 2] by (simp_all add: fin_def)
  have "length (js_slice (packFrame body @ data) 0 (fin + 1)) \<le> nat (fin + 1)"
    using f by (simp add: js_slice_def Let_def)
  also have "\<dots> < length body + 4" using f by linarith
  finally show ?thesis
    using f by (simp add: getCommand_def getCommand_loop_packFrame flip: fin_def)
qed

lemma slice_from_drop: "slice_from xs a = drop a xs"
  using js_slice_nat[of xs a "length xs"] by (simp add: slice_from_def)

lemma buildPacket_eq:
  assumes "length payload + length (md5_digest E payload) < 2 ^ 32"
  shows "buildPacket E payload =
           Inr (packFrame (commandBody_of E payload) @ payload @ md5_digest E payload)"
proof -
  define len where "len = bytesLE32 (int (length payload + length (md5_digest E payload)))"
  obtain l0 l1 l2 l3 where l: "len = [l0, l1, l2, l3]"
    by (simp add: len_def bytesLE32_def)
  have r5: "replicate 5 (0 :: byte) = [0, 0, 0, 0, 0]"
    by (simp add: numeral_eq_Suc)
  have w: "writeUInt32LE (5 # 1 # 2 # replicate 5 0)
             (int (length payload + length (md5_digest E payload))) 4 = Some (5 # 1 # 2 # 0 # len)"
    using assms by (simp add: writeUInt32LE_def len_def r5)
  have c: "headerChecksum E (5 # 1 # 2 # 0 # len) = cRC8 E (5 # 1 # 2 # len)"
    by (simp add: headerChecksum_def slice_take_drop slice_from_drop l)
  have u: "(5 # 1 # 2 # 0 # len)[3 := x] = 5 # 1 # 2 # x # len" for x :: byte
    by (simp add: numeral_3_eq_3)
  show ?thesis
    by (simp add: buildPacket_def Let_def w c u commandBody_of_def del: of_nat_add
        flip: len_def)
qed

lemma headerChecksum_commandBody_of:
  "headerChecksum E (commandBody_of E payload) = commandBody_of E payload ! 3"
proof -
  define len where "len = bytesLE32 (int (length payload + length (md5_digest E payload)))"
  obtain l0 l1 l2 l3 where l: "len = [l0, l1, l2, l3]"
    by (simp add: len_def bytesLE32_def)
  show ?thesis
    by (simp add: headerChecksum_def commandBody_of_def Let_def slice_take_drop slice_from_drop
        l flip: len_def)
qed

lemma readInt32LE_commandBody_of:
  assumes "length payload + length (md5_digest E payload) < 2 ^ 31"
  shows "readInt32LE (commandBody_of E payload) 4 =
           Some (int (length payload + length (md5_digest E payload)))"
proof -
  define n where "n = length payload + length (md5_digest E payload)"
  have n: "n < 2 ^ 31" "n < 2 ^ 32" using assms by (simp_all add: n_def)
  have t: "take 4 (drop 4 (commandBody_of E payload)) = bytesLE32 (int n)"
    by (simp add: commandBody_of_def Let_def length_bytesLE32 n_def)
  show ?thesis
    using n by (simp add: readInt32LE_def length_commandBody_of t uint_bytesLE32 sint_of_nat32
        flip: n_def)
qed

lemma parsePacket_buildPacket:
  assumes "length (md5_digest E payload) = 16" and "length payload + 16 < 2 ^ 31"
  shows "buildPacket E payload =
           Inr (packFrame (commandBody_of E payload) @ payload @ md5_digest E payload)
       \<and> parsePacket E lastUpload
           (packFrame (commandBody_of E payload) @ payload @ md5_digest E payload) =
           (if markerPair (commandBody_of E payload @ [0x2b]) then Inl ReturnedFalse
            else parsePayload E lastUpload payload)"
proof (rule conjI)
  define hdr where "hdr = commandBody_of E payload"
  define data where "data = payload @ md5_digest E payload"
  have ld: "length data = length payload + 16" by (simp add: data_def assms(1))
  have lh: "length hdr = 8" by (simp add: hdr_def length_commandBody_of)
  show "buildPacket E payload =
           Inr (packFrame (commandBody_of E payload) @ payload @ md5_digest E payload)"
    using assms by (intro buildPacket_eq) simp
  show "parsePacket E lastUpload
           (packFrame (commandBody_of E payload) @ payload @ md5_digest E payload) =
           (if markerPair (commandBody_of E payload @ [0x2b]) then Inl ReturnedFalse
            else parsePayload E lastUpload payload)"
  proof (cases "markerPair (hdr @ [0x2b])")
    case True
    have "length (getCommand (packFrame hdr @ data)) < 12"
      using getCommand_dirty[OF True, of data] lh by simp
    then show ?thesis
      using True by (simp add: parsePacket_def Let_def flip: hdr_def data_def)
  next
    case False
    have g: "getCommand (packFrame hdr @ data) = packFrame hdr"
      by (rule getCommand_clean[OF False])
    have lp: "length (packFrame hdr) = 12" by (simp add: packFrame_def lh)
    have rd: "readInt32LE hdr 4 = Some (int (length data))"
      using readInt32LE_commandBody_of[of payload E] assms by (simp add: hdr_def ld)
    have crc: "hdr ! 3 = headerChecksum E hdr"
      by (simp add: hdr_def headerChecksum_commandBody_of)
    have s1: "js_slice (packFrame hdr @ data) (int (length (packFrame hdr)))
                (int (length (packFrame hdr)) + int (length data)) = data"
      using js_slice_nat[of "packFrame hdr @ data" "length (packFrame hdr)"
          "length (packFrame hdr) + length data"] by simp
    have s2: "js_slice data 0 (int (length data) - 16) = payload"
      using js_slice_nat[of data 0 "length payload"] by (simp add: ld) (simp add: data_def)
    have s3: "js_slice data (int (length data) - 16) (int (length data)) = md5_digest E payload"
      using js_slice_nat[of data "length payload" "length data"]
      by (simp add: ld) (simp add: data_def assms(1))
    show ?thesis
      using False
      by (simp add: parsePacket_def Let_def g unpackFrame_packFrame rd crc s1 s2 s3
          flip: hdr_def data_def) (simp add: lp)
  qed
qed

section \<open>Lemmas on delivery reconstruction\<close>




lemma length_insertByTime: "length (insertByTime x ys) = Suc (length ys)"
  by (induction ys) auto

lemma length_foldl_insertByTime:
  "length (foldl (\<lambda>acc x. insertByTime x acc) acc xs) = length acc + length xs"
  by (induction xs arbitrary: acc) (auto simp: length_insertByTime)

lemma length_sortByDeviceTime: "length (sortByDeviceTime xs) = length xs"
  by (simp add: sortByDeviceTime_def length_foldl_insertByTime)

lemma length_buildBasal_loop: "length (buildBasal_loop E xs prev) = length xs - 1"
  by (induction E xs prev rule: buildBasal_loop.induct) (auto simp: Let_def)

lemma length_buildBasal: "length (buildBasal E rates) = length rates - 1"
  by (simp add: buildBasal_def length_buildBasal_loop length_sortByDeviceTime)

lemma filter_is_Basal:
  "filter is_Basal (map Basal bs) = map Basal bs"
  "filter is_Basal (map Bolus ps) = []"
  "filter is_Basal (map Alarm es) = []"
  "filter is_Basal (map Suspend es) = []"
  "filter is_Basal (map Prime es) = []"
  "filter is_Basal (map ReservoirChange es) = []"
  "filter is_Basal (buildBlood E lastUpload gs) = []"
  by (simp_all add: filter_map o_def buildBlood_def)

section \<open>Lemmas on the settings enumerator\<close>






section \<open>The historical record decoder: claims C1, C3, C4 and C10\<close>

text \<open>
  Claim C1, as amended. The claim has a record dated strictly before \<^verbatim>\<open>lastUpload\<close> add
  nothing to any output but \<^verbatim>\<open>lastBasals\<close>. On the code, for every such record the body
  of the loop leaves \<^verbatim>\<open>BloodGlucoses\<close>, \<^verbatim>\<open>BasalRates\<close> and \<^verbatim>\<open>BolusRates\<close> as they are
  and appends exactly one entry to \<^verbatim>\<open>lastBasals\<close> when the serial is not \<^verbatim>\<open>000000\<close> and
  the event port is not 3, and none otherwise. After the loop the latest entry of
  \<^verbatim>\<open>lastBasals\<close> is put in front of \<^verbatim>\<open>BasalRates\<close>: a payload of this one record returns
  no glucose and no bolus sample, and \<^verbatim>\<open>BasalRates\<close> equal to \<^verbatim>\<open>lastBasals\<close>, the carried
  entry alone. Nothing is stated about the alarm, status, reservoir and prime outputs: the
  code fills them before it tests the boundary.
\<close>

theorem pre_boundary_record:
  assumes "js_lt (dateValueOf E (timeText_of history)) lastUpload"
  shows "BloodGlucoses (parseRecord E lastUpload history r) = BloodGlucoses r
       \<and> BasalRates (parseRecord E lastUpload history r) = BasalRates r
       \<and> BolusRates (parseRecord E lastUpload history r) = BolusRates r
       \<and> lastBasals (parseRecord E lastUpload history r) =
           (if SN_of history \<noteq> replicate 6 0x30 \<and> eventPort_of history \<noteq> 3
            then lastBasals r @
                   [(recoder_of history)\<lparr>BasalRate := Some (basalValue E history)\<rparr>]
            else lastBasals r)
       \<and> (length history = 28 \<longrightarrow>
            (\<exists>res. parsePayload E lastUpload history = Inr res
               \<and> BloodGlucoses res = [] \<and> BolusRates res = []
               \<and> BasalRates res = lastBasals res
               \<and> lastBasals res =
                   (if SN_of history \<noteq> replicate 6 0x30 \<and> eventPort_of history \<noteq> 3
                    then [(recoder_of history)\<lparr>BasalRate := Some (basalValue E history)\<rparr>]
                    else [])))"
proof -
  have step:
    "BloodGlucoses (parseRecord E lastUpload history r') = BloodGlucoses r'
     \<and> BasalRates (parseRecord E lastUpload history r') = BasalRates r'
     \<and> BolusRates (parseRecord E lastUpload history r') = BolusRates r'
     \<and> lastBasals (parseRecord E lastUpload history r') =
         (if SN_of history \<noteq> replicate 6 0x30 \<and> eventPort_of history \<noteq> 3
          then lastBasals r' @
                 [(recoder_of history)\<lparr>BasalRate := Some (basalValue E history)\<rparr>]
          else lastBasals r')" for r'
    using assms
    by (simp add: parseRecord_def SN_is_000000_def pushEvents_samples Let_def)
  have whole: "\<exists>res. parsePayload E lastUpload history = Inr res
               \<and> BloodGlucoses res = [] \<and> BolusRates res = []
               \<and> BasalRates res = lastBasals res
               \<and> lastBasals res =
                   (if SN_of history \<noteq> replicate 6 0x30 \<and> eventPort_of history \<noteq> 3
                    then [(recoder_of history)\<lparr>BasalRate := Some (basalValue E history)\<rparr>]
                    else [])"
    if len: "length history = 28"
  proof -
    have p: "parsePayload E lastUpload history =
             Inr (carryForward (parseRecord E lastUpload history emptyRes))"
      using len by (simp add: parsePayload_def parseLoop_single)
    show ?thesis
      unfolding p using step[of emptyRes]
      by (simp add: carryForward_def sortByDeviceTime_def emptyRes_def Let_def)
  qed
  show ?thesis using step[of r] whole by blast
qed

theorem pre_boundary_record_witness:
  "js_lt (dateValueOf sampleEnv (timeText_of sampleRecord)) (Num 1700000000000)
   \<and> BloodGlucoses (parseRecord sampleEnv (Num 1700000000000) sampleRecord emptyRes) = []
   \<and> BasalRates (parseRecord sampleEnv (Num 1700000000000) sampleRecord emptyRes) = []
   \<and> BolusRates (parseRecord sampleEnv (Num 1700000000000) sampleRecord emptyRes) = []
   \<and> lastBasals (parseRecord sampleEnv (Num 1700000000000) sampleRecord emptyRes) =
       [(recoder_of sampleRecord)\<lparr>BasalRate := Some (Num (1 / 2))\<rparr>]"
proof -
  have h: "js_lt (dateValueOf sampleEnv (timeText_of sampleRecord)) (Num 1700000000000)"
    by code_simp
  have v: "SN_of sampleRecord \<noteq> replicate 6 0x30" "eventPort_of sampleRecord \<noteq> 3"
    "basalValue sampleEnv sampleRecord = Num (1 / 2)"
    by code_simp+
  show ?thesis
    using h v pre_boundary_record[OF h, of emptyRes] by (simp add: emptyRes_def)
qed

text \<open>
  The claim as stated fails on the sample record (low insulin, port 4, dated 2021) with a
  boundary in 2023: the record is reported as an alarm, and it is returned in
  \<^verbatim>\<open>BasalRates\<close>.
\<close>

theorem pre_boundary_record_counterexample:
  "js_lt (dateValueOf sampleEnv (timeText_of sampleRecord)) (Num 1700000000000)
   \<and> parsePayload sampleEnv (Num 1700000000000) sampleRecord =
     Inr \<lparr>BloodGlucoses = [],
          BasalRates = [\<lparr>deviceTime = ''2021-01-01T00:00:00'', recordId = 1, eventPort = 4,
                          deviceSn = ''123456'', BasalRate = Some (Num (1 / 2)),
                          BloodGlucose = None, BolusRate = None\<rparr>],
          BolusRates = [],
          lastBasals = [\<lparr>deviceTime = ''2021-01-01T00:00:00'', recordId = 1, eventPort = 4,
                          deviceSn = ''123456'', BasalRate = Some (Num (1 / 2)),
                          BloodGlucose = None, BolusRate = None\<rparr>],
          alarm = [\<lparr>ev_index = 1, ev_type = ''low_insulin'',
                     ev_deviceTime = ''2021-01-01T00:00:00''\<rparr>],
          status = [], reservoirChanges = [], primes = []\<rparr>"
  by code_simp

text \<open>
  Claim C3, as amended. A payload whose length is not a multiple of 28 (29, say) fails
  with the error \<^verbatim>\<open>Incorrect payload length\<close> and returns no record. The empty payload,
  which the claim counts among them, fails as well, but with the error of the guard before
  it, \<^verbatim>\<open>E_READ_FILE\<close> (no data available).
\<close>

theorem parsePayload_misaligned:
  "(length payload mod 28 \<noteq> 0 \<longrightarrow>
      parsePayload E lastUpload payload = Inl IncorrectPayloadLength)
   \<and> parsePayload E lastUpload [] = Inl E_READ_FILE"
  by (auto simp: parsePayload_def)

theorem parsePayload_misaligned_witness:
  "length (sampleRecord @ [0]) mod 28 \<noteq> 0 \<and>
   parsePayload sampleEnv (Num 0) (sampleRecord @ [0]) = Inl IncorrectPayloadLength"
  using parsePayload_misaligned[of "sampleRecord @ [0]" sampleEnv "Num 0"]
  by (simp add: sampleRecord_def)

theorem parsePayload_empty_counterexample:
  "parsePayload sampleEnv (Num 0) [] \<noteq> Inl IncorrectPayloadLength"
  by (simp add: parsePayload_def)

text \<open>
  Claim C4. A record whose serial field is the sentinel is skipped: the body of the loop
  returns the result unchanged, and a payload with such a record between whole records
  succeeds with exactly the result of the loop over the payload without it. The sentinel of
  the code is the text \<^verbatim>\<open>000000\<close>, six bytes \<^verbatim>\<open>0x30\<close>: the all-zero serial of a field
  the spec has as 6-byte ASCII.
\<close>

theorem sentinel_record_skipped:
  assumes "SN_of history = replicate 6 0x30" and "length history = 28"
    and "length pre mod 28 = 0" and "length post mod 28 = 0"
  shows "parseRecord E lastUpload history r = r
       \<and> parsePayload E lastUpload (pre @ history @ post) =
           Inr (carryForward (parseLoop E lastUpload (pre @ post) 0 emptyRes))"
proof -
  have skip: "parseRecord E lastUpload history r' = r'" for r'
    using assms(1) by (simp add: parseRecord_def SN_is_000000_def)
  obtain n where n: "length pre = 28 * n"
    using assms(3) by (auto simp: mod_eq_0_iff_dvd elim: dvdE)
  have "parseLoop E lastUpload (pre @ history @ post) 0 emptyRes =
        parseLoop E lastUpload (history @ post) 0 (parseLoop E lastUpload pre 0 emptyRes)"
    by (rule parseLoop_append[OF n])
  also have "\<dots> = parseLoop E lastUpload post 0
                     (parseLoop E lastUpload history 0 (parseLoop E lastUpload pre 0 emptyRes))"
    using parseLoop_append[of history 1 E lastUpload post] assms(2) by simp
  also have "\<dots> = parseLoop E lastUpload post 0 (parseLoop E lastUpload pre 0 emptyRes)"
    by (simp add: parseLoop_single[OF assms(2)] skip)
  also have "\<dots> = parseLoop E lastUpload (pre @ post) 0 emptyRes"
    by (rule parseLoop_append[OF n, symmetric])
  finally have loop: "parseLoop E lastUpload (pre @ history @ post) 0 emptyRes =
                      parseLoop E lastUpload (pre @ post) 0 emptyRes" .
  have "length (pre @ history @ post) mod 28 = 0"
    using assms(2,3,4) by (simp add: mod_add_eq[symmetric] mod_add_left_eq mod_add_right_eq)
  then show ?thesis
    using assms(2) loop skip by (simp add: parsePayload_def)
qed

theorem sentinel_record_skipped_witness:
  "SN_of emptySlot = replicate 6 0x30 \<and> length emptySlot = 28
   \<and> length sampleRecord mod 28 = 0 \<and> length sampleGlucose mod 28 = 0
   \<and> parseRecord sampleEnv (Num 0) emptySlot emptyRes = emptyRes
   \<and> parsePayload sampleEnv (Num 0) (sampleRecord @ emptySlot @ sampleGlucose) =
       Inr (carryForward (parseLoop sampleEnv (Num 0) (sampleRecord @ sampleGlucose) 0 emptyRes))"
proof -
  have h: "SN_of emptySlot = replicate 6 0x30" "length emptySlot = 28"
    "length sampleRecord mod 28 = 0" "length sampleGlucose mod 28 = 0"
    by code_simp+
  show ?thesis
    using h sentinel_record_skipped[OF h, of sampleEnv "Num 0" emptyRes] by simp
qed



section \<open>The command protocol: claim C2\<close>

text \<open>
  Claim C2, as amended. For every payload of fewer than \<open>2^31 - 16\<close> bytes (with a digest of 16
  bytes), \<^verbatim>\<open>buildPacket\<close> returns the framed header followed by payload and digest. If
  the eight header bytes followed by the first byte of the closing marker hold no two
  adjacent bytes \<^verbatim>\<open>0x2b\<close>, \<^verbatim>\<open>parsePacket\<close> of that packet finds the frame, passes the
  CRC-8 test (over the seven header bytes without the checksum slot) and the digest test,
  and hands exactly the payload to \<^verbatim>\<open>parsePayload\<close>. If they do hold such a pair,
  \<^verbatim>\<open>getCommand\<close> ends the frame there and \<^verbatim>\<open>parsePacket\<close> returns \<^verbatim>\<open>false\<close>: the frame
  codec does not escape the marker inside a header.
\<close>

theorem packet_round_trip:
  assumes "length (md5_digest E payload) = 16" and "length payload + 16 < 2 ^ 31"
  shows "buildPacket E payload =
           Inr (packFrame (commandBody_of E payload) @ payload @ md5_digest E payload)
       \<and> parsePacket E lastUpload
           (packFrame (commandBody_of E payload) @ payload @ md5_digest E payload) =
           (if markerPair (commandBody_of E payload @ [0x2b]) then Inl ReturnedFalse
            else parsePayload E lastUpload payload)"
  using assms by (rule parsePacket_buildPacket)

theorem packet_round_trip_witness:
  "length (md5_digest sampleEnv sampleRecord) = 16 \<and> length sampleRecord + 16 < 2 ^ 31
   \<and> \<not> markerPair (commandBody_of sampleEnv sampleRecord @ [0x2b])
   \<and> buildPacket sampleEnv sampleRecord =
       Inr (packFrame (commandBody_of sampleEnv sampleRecord) @ sampleRecord
            @ md5_digest sampleEnv sampleRecord)
   \<and> parsePacket sampleEnv (Num 0)
         (packFrame (commandBody_of sampleEnv sampleRecord) @ sampleRecord
          @ md5_digest sampleEnv sampleRecord) =
       parsePayload sampleEnv (Num 0) sampleRecord"
proof -
  have h: "length (md5_digest sampleEnv sampleRecord) = 16" "length sampleRecord + 16 < 2 ^ 31"
    by (simp_all add: sampleEnv_def lengthDigest_def sampleRecord_def)
  have m: "\<not> markerPair (commandBody_of sampleEnv sampleRecord @ [0x2b])"
    by (simp add: commandBody_of_def sampleEnv_def lengthDigest_def bytesLE32_def
        sampleRecord_def xorBytes_def)
  show ?thesis
    using h m packet_round_trip[OF h, of "Num 0"] by simp
qed

text \<open>
  The claim as stated fails for a payload of 11035 bytes: payload and digest are 11051 =
  \<^verbatim>\<open>0x2b2b\<close> bytes long, the length field of the header starts with \<^verbatim>\<open>2b 2b\<close>, and the
  frame that \<^verbatim>\<open>getCommand\<close> returns is shorter than 12 bytes.
\<close>

theorem packet_round_trip_counterexample:
  "commandBody_of sampleEnv (replicate 11035 0) = [0x05, 0x01, 0x02, 0x06, 0x2b, 0x2b, 0, 0]
   \<and> buildPacket sampleEnv (replicate 11035 0) =
       Inr (packFrame [0x05, 0x01, 0x02, 0x06, 0x2b, 0x2b, 0, 0] @ replicate 11035 0
            @ md5_digest sampleEnv (replicate 11035 0))
   \<and> parsePacket sampleEnv (Num 0)
         (packFrame [0x05, 0x01, 0x02, 0x06, 0x2b, 0x2b, 0, 0] @ replicate 11035 0
          @ md5_digest sampleEnv (replicate 11035 0)) = Inl ReturnedFalse"
proof -
  have h: "length (md5_digest sampleEnv (replicate 11035 0)) = 16"
    "length (replicate 11035 (0 :: byte)) + 16 < 2 ^ 31"
    by (simp_all add: sampleEnv_def lengthDigest_def)
  have x: "xorBytes [0x05, 0x01, 0x02, 0x2b, 0x2b, 0, 0] = 0x06"
    by code_simp
  have c: "commandBody_of sampleEnv (replicate 11035 0) =
             [0x05, 0x01, 0x02, 0x06, 0x2b, 0x2b, 0, 0]"
    using x by (simp add: commandBody_of_def sampleEnv_def lengthDigest_def bytesLE32_def)
  have m: "markerPair ([0x05, 0x01, 0x02, 0x06, 0x2b, 0x2b, 0, 0] @ [0x2b])"
    by simp
  show ?thesis
    using parsePacket_buildPacket[OF h, of "Num 0"] m by (simp add: c)
qed

section \<open>Delivery reconstruction: claims C5, C6, C7 and C9\<close>

text \<open>
  Claim C5, at the rate 12800. \<^verbatim>\<open>checkBolus\<close> counts a sample of rate 12800 as
  square-bearing (\<^verbatim>\<open><= 12800\<close>), and the claim has it add its amount to the extended
  component and its gap to the duration of the one DualSquare episode. \<^verbatim>\<open>buildBolusDualSquare\<close>
  tests \<^verbatim>\<open>< 12800\<close> instead: for the run of the rates 20000, 12800 and 0, a minute apart,
  the episode has the extended amount 0 and the duration 0, whether the rates are written
  plainly or padded to six digits. With 12799 in place of 12800 the same run gives the
  extended amount 1.35 and the duration 60000 ms.
\<close>

theorem dual_square_boundary_rate:
  "checkBolus (sampleRun ''20000'' ''12800'' ''0'') = ''dulSquare''
   \<and> buildBolus sampleEnv (sampleRun ''20000'' ''12800'' ''0'') =
       [DualBolus (Num (21 / 10)) (Num 0) (Num 0) (Num 1609459200000) 1]
   \<and> checkBolus (sampleRun ''020000'' ''012800'' ''000000'') = ''dulSquare''
   \<and> buildBolusDualSquare sampleEnv (sampleRun ''020000'' ''012800'' ''000000'') =
       [DualBolus (Num (21 / 10)) (Num 0) (Num 0) (Num 1609459200000) 1]
   \<and> buildBolus sampleEnv (sampleRun ''20000'' ''12799'' ''0'') =
       [DualBolus (Num (21 / 10)) (Num (27 / 20)) (Num 60000) (Num 1609459200000) 1]"
  by code_simp







text \<open>
  Claim C9. \<^verbatim>\<open>buildBasal\<close> returns one segment for every sample but the last, and
  \<^verbatim>\<open>processData\<close> always succeeds with a list whose basal records are the segments when
  there are more than one and none otherwise. So a list \<^verbatim>\<open>BasalRates\<close> of two or fewer
  samples, the carried-forward one counted, puts no basal record in the upload. The samples
  counted are those of \<^verbatim>\<open>BasalRates\<close>, not only the ones after the boundary: see the
  payload below.
\<close>

theorem short_basal_dropped:
  "length (buildBasal E (BasalRates data)) = length (BasalRates data) - 1
   \<and> (\<exists>rs. processData E lastUpload data = Inr rs
          \<and> filter is_Basal rs =
              (if 1 < length (buildBasal E (BasalRates data))
               then map Basal (buildBasal E (BasalRates data)) else [])
          \<and> (length (BasalRates data) \<le> 2 \<longrightarrow> filter is_Basal rs = []))"
proof -
  have l: "length (buildBasal E (BasalRates data)) = length (BasalRates data) - 1"
    by (rule length_buildBasal)
  have "\<exists>rs. processData E lastUpload data = Inr rs
          \<and> filter is_Basal rs =
              (if 1 < length (buildBasal E (BasalRates data))
               then map Basal (buildBasal E (BasalRates data)) else [])"
    by (simp add: processData_def Let_def filter_is_Basal)
  then show ?thesis using l by auto
qed

theorem short_basal_dropped_witness:
  "length (BasalRates (emptyRes\<lparr>BasalRates := [sample ''2021-01-01T00:00:00'' 1 ''0'',
                                                sample ''2021-01-01T00:01:00'' 2 ''0'']\<rparr>)) \<le> 2
   \<and> length (buildBasal sampleEnv [sample ''2021-01-01T00:00:00'' 1 ''0'',
                                     sample ''2021-01-01T00:01:00'' 2 ''0'']) = 1
   \<and> processData sampleEnv (Num 0)
        (emptyRes\<lparr>BasalRates := [sample ''2021-01-01T00:00:00'' 1 ''0'',
                                   sample ''2021-01-01T00:01:00'' 2 ''0'']\<rparr>) = Inr [PumpSettings]"
proof -
  define d where "d = emptyRes\<lparr>BasalRates := [sample ''2021-01-01T00:00:00'' 1 ''0'',
                                               sample ''2021-01-01T00:01:00'' 2 ''0'']\<rparr>"
  have b: "BasalRates d = [sample ''2021-01-01T00:00:00'' 1 ''0'',
                           sample ''2021-01-01T00:01:00'' 2 ''0'']"
    by (simp add: d_def)
  have e: "BloodGlucoses d = []" "BolusRates d = []" "alarm d = []" "status d = []"
    "primes d = []" "reservoirChanges d = []"
    by (simp_all add: d_def emptyRes_def)
  from short_basal_dropped[of sampleEnv d "Num 0"]
  obtain rs where rs: "processData sampleEnv (Num 0) d = Inr rs"
    and l: "length (buildBasal sampleEnv (BasalRates d)) = length (BasalRates d) - 1"
    and f: "filter is_Basal rs = []"
    by (auto simp: b)
  have p: "processData sampleEnv (Num 0) d = Inr [PumpSettings]"
    using l by (simp add: processData_def Let_def e b buildBlood_def buildBolus_def)
  have l': "length (buildBasal sampleEnv (BasalRates d)) = 1"
    using l by (simp add: b)
  show ?thesis
    using p l' unfolding b unfolding d_def by simp
qed

text \<open>
  A payload with one record before the boundary and two after it. The record before the
  boundary is carried forward in front of \<^verbatim>\<open>BasalRates\<close>, which so has three samples:
  \<^verbatim>\<open>buildBasal\<close> returns two segments and both are uploaded, although only two basal
  samples are after the boundary.
\<close>

theorem two_later_basals_counterexample:
  "(case parsePayload sampleEnv (Num 1700000000000) threeBasals of
      Inl e \<Rightarrow> False
    | Inr res \<Rightarrow>
        map recordId (lastBasals res) = [1] \<and> map recordId (BasalRates res) = [1, 2, 3]
        \<and> (case processData sampleEnv (Num 1700000000000) res of
              Inl e \<Rightarrow> False
            | Inr rs \<Rightarrow> map sb_index (buildBasal sampleEnv (BasalRates res)) = [1, 2]
                        \<and> filter is_Basal rs = map Basal (buildBasal sampleEnv (BasalRates res))))"
  by code_simp

section \<open>The settings enumerator: claim C8\<close>




end
